theory Spec2Isabelle
  imports Complex_Main
begin

text \<open>
  A shallow embedding of the tutoring orchestration of \<open>smart-learner-agent2\<close>: the
  rule-based tools of the knowledge assessor and of the mnemonic generator
  (\<open>backend/agents/tools\<close>), the teaching workflow graph with its nodes and routers
  (\<open>backend/workflows/teaching_workflow.py\<close>), and the reasoning-action cycle of the
  knowledge assessor (\<open>backend/agents/react\<close>). The language model, the compiled
  sub-agents, the clock and the library functions are parameters.
\<close>

section \<open>Text\<close>

text \<open>
  A Python \<open>str\<close> is a sequence of Unicode code points: \<open>len\<close> counts code points and
  \<open>in\<close> is the contiguous-substring test. Texts are therefore lists of code points; an
  ASCII literal of the source is written \<open>ascii ''...''\<close>, any other literal by its code
  points.
\<close>

type_synonym str = "nat list"

definition ascii :: "string \<Rightarrow> str" where
  "ascii s = map of_char s"

fun starts_with :: "str \<Rightarrow> str \<Rightarrow> bool" where
  "starts_with s [] = True"
| "starts_with [] (k # ks) = False"
| "starts_with (c # cs) (k # ks) = (c = k \<and> starts_with cs ks)"

text \<open>\<open>contains s k\<close> is Python's \<open>k in s\<close>.\<close>

fun contains :: "str \<Rightarrow> str \<Rightarrow> bool" where
  "contains [] k = (k = [])"
| "contains (c # cs) k = (starts_with (c # cs) k \<or> contains cs k)"

text \<open>
  \<open>str.isspace\<close> of Python 3, the characters that \<open>str.strip()\<close> removes. The functions
  below take the predicate as a parameter; this is the table of CPython.
\<close>

definition py_isspace :: "nat \<Rightarrow> bool" where
  "py_isspace c = (c \<in> {9, 10, 11, 12, 13, 28, 29, 30, 31, 32, 133, 160, 5760,
     8192, 8193, 8194, 8195, 8196, 8197, 8198, 8199, 8200, 8201, 8202,
     8232, 8233, 8239, 8287, 12288})"

text \<open>
  The regular expression class \<open>\d\<close> on a \<open>str\<close> pattern matches every Unicode decimal
  digit; the functions below take the class as a parameter. On code points below 128 it
  is \<open>[0-9]\<close>, which is \<open>ascii_digit\<close>.
\<close>

definition ascii_digit :: "nat \<Rightarrow> bool" where
  "ascii_digit c = (48 \<le> c \<and> c \<le> 57)"

definition strip :: "(nat \<Rightarrow> bool) \<Rightarrow> str \<Rightarrow> str" where
  "strip isspace s = rev (dropWhile isspace (rev (dropWhile isspace s)))"

text \<open>\<open>any(k in s for k in ks)\<close>\<close>

definition any_in :: "str list \<Rightarrow> str \<Rightarrow> bool" where
  "any_in ks s = list_ex (\<lambda>k. contains s k) ks"

text \<open>\<open>re.search(r"\d", s)\<close> finds a match exactly when some character is a digit.\<close>

definition has_digit :: "(nat \<Rightarrow> bool) \<Rightarrow> str \<Rightarrow> bool" where
  "has_digit isdigit s = list_ex isdigit s"

text \<open>
  \<open>len(re.findall(r'\d+', s))\<close>: the number of maximal runs of digits. The flag says
  whether the previous character was a digit.
\<close>

fun digit_runs :: "(nat \<Rightarrow> bool) \<Rightarrow> bool \<Rightarrow> str \<Rightarrow> nat" where
  "digit_runs isdigit inrun [] = 0"
| "digit_runs isdigit inrun (c # cs) =
     (if isdigit c then (if inrun then 0 else 1) + digit_runs isdigit True cs
      else digit_runs isdigit False cs)"


section \<open>Knowledge assessor tools\<close>

datatype understanding = fully_understood | partially_understood | not_understood

datatype confidence = low | medium | medium_high | high

text \<open>
  The five \<open>assessment_details\<close> messages of \<open>assess_understanding_level\<close>, in the order
  of its return statements.
\<close>

datatype details =
    answer_too_short
  | explicitly_not_understood
  | core_concepts_understood
  | main_concepts_understood
  | understanding_insufficient

record assessment =
  a_result :: understanding
  a_confidence :: confidence
  a_details :: details

text \<open>The list \<open>negative_keywords\<close>: five Chinese phrases for "I don't know / don't understand".\<close>

definition negative_keywords :: "str list" where
  "negative_keywords =
     [[19981, 30693, 36947], [19981, 29702, 35299], [19981, 25026],
      [19981, 28165, 26970], [27809, 21548, 25026]]"

text \<open>
  \<open>len([kp for kp in key_points_understood if any(exp in kp for exp in expected_key_points)])\<close>
\<close>

definition covered :: "str list \<Rightarrow> str list \<Rightarrow> nat" where
  "covered key_points_understood expected_key_points =
     length (filter (\<lambda>kp. list_ex (\<lambda>exp. contains kp exp) expected_key_points)
               key_points_understood)"

text \<open>
  The source computes the coverage in double precision floats and compares it with the
  literals 0.9, 0.8, 0.5 and 0.3. A quotient of two list lengths is rounded correctly and
  monotonically, and it cannot fall within one rounding step of a threshold without being
  equal to it unless a list has more than \<open>10^14\<close> elements, so the comparisons agree with
  the exact rational ones used here.
\<close>

definition coverage :: "str list \<Rightarrow> str list \<Rightarrow> rat" where
  "coverage key_points_understood expected_key_points =
     (if expected_key_points \<noteq> []
      then of_nat (covered key_points_understood expected_key_points)
             / of_nat (length expected_key_points)
      else min (of_nat (length key_points_understood) / 3) 1)"

definition assess_understanding_level ::
    "(nat \<Rightarrow> bool) \<Rightarrow> str list \<Rightarrow> str list \<Rightarrow> str list \<Rightarrow> str \<Rightarrow> assessment" where
  "assess_understanding_level isspace key_points_understood misunderstandings
       expected_key_points learner_response =
     (if learner_response = [] \<or> length (strip isspace learner_response) < 10
      then \<lparr>a_result = not_understood, a_confidence = low, a_details = answer_too_short\<rparr>
      else if any_in negative_keywords learner_response
      then \<lparr>a_result = not_understood, a_confidence = low,
            a_details = explicitly_not_understood\<rparr>
      else
        let cov = coverage key_points_understood expected_key_points;
            has_serious_misunderstanding = (length misunderstandings \<ge> 2);
            has_minor_misunderstanding = (length misunderstandings = 1)
        in if cov \<ge> 8 / 10 \<and> \<not> has_serious_misunderstanding
           then \<lparr>a_result = fully_understood,
                 a_confidence = (if cov \<ge> 9 / 10 then high else medium_high),
                 a_details = core_concepts_understood\<rparr>
           else if cov \<ge> 5 / 10 \<or> (cov \<ge> 3 / 10 \<and> \<not> has_serious_misunderstanding)
           then \<lparr>a_result = partially_understood,
                 a_confidence = (if has_minor_misunderstanding then medium else medium_high),
                 a_details = main_concepts_understood\<rparr>
           else \<lparr>a_result = not_understood,
                 a_confidence = (if has_serious_misunderstanding then low else medium),
                 a_details = understanding_insufficient\<rparr>)"



section \<open>Mnemonic generator tools\<close>

text \<open>
  The feature dictionary. A field is \<open>None\<close> when the key is absent, which is what
  \<open>features.get\<close> tests.
\<close>

record features =
  formulas_count :: "int option"
  has_comparison :: "bool option"
  abstraction_level :: "str option"
  structure_type :: "str option"

definition analyze_concept_features :: "(nat \<Rightarrow> bool) \<Rightarrow> str \<Rightarrow> str \<Rightarrow> features" where
  "analyze_concept_features isdigit concept_name explanation =
     (let numbers = digit_runs isdigit False explanation
      in \<lparr>formulas_count = Some (int numbers),
          has_comparison = Some (contains explanation (ascii ''vs'')
                                 \<or> contains explanation [23545, 27604]),
          abstraction_level = Some (ascii ''medium''),
          structure_type = Some (if numbers \<noteq> 0 then ascii ''formula''
                                 else ascii ''relationship'')\<rparr>)"

definition select_mnemonic_strategy :: "features \<Rightarrow> str list" where
  "select_mnemonic_strategy f =
     (let strategies = [];
          strategies = (if (case formulas_count f of None \<Rightarrow> 0 | Some n \<Rightarrow> n) \<ge> 3
                        then strategies @ [ascii ''acronym''] else strategies);
          strategies = (if has_comparison f = Some True
                        then strategies @ [ascii ''comparison''] else strategies);
          strategies = (if abstraction_level f = Some (ascii ''high'')
                        then strategies @ [ascii ''analogy''] else strategies)
      in if strategies \<noteq> [] then strategies else [ascii ''acronym''])"



section \<open>Session state\<close>

text \<open>
  \<open>TeachingState\<close>: the fields the workflow reads or writes, with their defaults in
  \<open>create_initial_state\<close>. A \<open>Dict[str, Any]\<close> is an association list, a UUID a number.
  The fields that no node and no router touches (session, goal and record identifiers,
  learner name, teaching mode, sub-agent bookkeeping) are left out.
\<close>

datatype exn = Exception str

type_synonym pydict = "(str \<times> str) list"

text \<open>
  A retrieved concept is a dictionary or a model object (\<open>isinstance(concept, dict)\<close>);
  both carry optional \<open>formulas\<close> and \<open>rules\<close>.
\<close>

datatype concept = DictConcept "str option" "str option" | ModelConcept "str option" "str option"

record question =
  q_question_text :: str
  q_expected_key_points :: "str list option"

record TeachingState =
  learner_id :: nat
  tenant_id :: nat
  current_topic_id :: "nat option"
  question_text :: "str option"
  initial_understanding :: "str option"
  learner_preferences :: "pydict option"
  knowledge_gaps :: "pydict list"
  retrieved_concepts :: "concept list"
  needs_validation :: bool
  validation_result :: "pydict option"
  verified_sources :: "pydict list"
  skip_validation :: bool
  baseline_level :: "str option"
  baseline_assessment :: "str option"
  explanation :: "str option"
  generated_mnemonic :: "pydict option"
  mnemonic_devices :: "pydict list"
  recommended_strategy :: "str option"
  skip_mnemonic :: bool
  comprehension_questions :: "question list"
  learner_response :: "str option"
  assessment_result :: "str option"
  assessment_details :: "str option"
  confidence_level :: "str option"
  key_points_understood :: "str list"
  misunderstandings :: "str list"
  intent :: "str option"
  next_action :: "str option"
  retry_count :: int
  max_retries :: int
  review_reminders :: "pydict list"
  learning_efficiency :: "pydict option"
  timestamp :: nat
  workflow_stage :: "str option"
  error_message :: "str option"

definition create_initial_state :: "nat \<Rightarrow> nat \<Rightarrow> nat \<Rightarrow> str option \<Rightarrow> str option \<Rightarrow> TeachingState" where
  "create_initial_state lid tid now question understanding =
     \<lparr>learner_id = lid, tenant_id = tid, current_topic_id = None,
      question_text = question, initial_understanding = understanding,
      learner_preferences = None, knowledge_gaps = [], retrieved_concepts = [],
      needs_validation = False, validation_result = None, verified_sources = [],
      skip_validation = False, baseline_level = None, baseline_assessment = None,
      explanation = None, generated_mnemonic = None, mnemonic_devices = [],
      recommended_strategy = None, skip_mnemonic = False, comprehension_questions = [],
      learner_response = None, assessment_result = None, assessment_details = None,
      confidence_level = None, key_points_understood = [], misunderstandings = [],
      intent = None, next_action = None, retry_count = 0, max_retries = 3,
      review_reminders = [], learning_efficiency = None, timestamp = now,
      workflow_stage = Some (ascii ''initialized''), error_message = None\<rparr>"

text \<open>Python truthiness of an \<open>Optional[str]\<close>: \<open>None\<close> and \<open>""\<close> are false.\<close>

definition truthy :: "str option \<Rightarrow> bool" where
  "truthy x = (x \<noteq> None \<and> x \<noteq> Some [])"

text \<open>\<open>x or ""\<close>\<close>

definition or_empty :: "str option \<Rightarrow> str" where
  "or_empty x = (case x of None \<Rightarrow> [] | Some s \<Rightarrow> s)"


section \<open>The sub-agents as oracles\<close>

text \<open>
  The five ReAct sub-agents and the language model are outside the workflow. An
  invocation either raises or returns the agent's final state, of which the workflow
  reads the keys below with \<open>s.get\<close>. A field is \<open>None\<close> when \<open>s.get(key)\<close> is \<open>None\<close>;
  for a key read with a default, \<open>None\<close> means that the key is absent. The key
  \<open>explanation\<close> is always present in the teacher's state and may hold \<open>None\<close>, so it has
  both levels.
\<close>

record reply =
  r_baseline_level :: "str option"
  r_baseline_assessment :: "str option"
  r_retrieved_concepts :: "concept list option"
  r_explanation :: "str option option"
  r_comprehension_questions :: "question list option"
  r_validation_result :: "pydict option"
  r_verification_sources :: "pydict list option"
  r_generated_mnemonic :: "pydict option"
  r_recommended_strategies :: "str list option"
  r_assessment_result :: "str option"
  r_confidence_level :: "str option"
  r_assessment_details :: "str option"
  r_key_points_understood :: "str list option"
  r_misunderstandings :: "str list option"
  r_next_action :: "str option"
  r_knowledge_gaps :: "pydict list option"
  r_efficiency_metrics :: "pydict option"
  r_review_recommendations :: "pydict list option"

datatype callee =
  llm | socratic_agent | assessor_agent | progress_agent | validator_agent | mnemonic_agent

text \<open>A call is the callee and the task type (for the language model, the question).\<close>

type_synonym call = "callee \<times> str"

text \<open>
  The environment: what the language model answers to the intent prompt (\<open>resp.content\<close>,
  possibly \<open>None\<close>), what an agent returns for a task, the clock, and the library
  functions \<open>str.isspace\<close>, \<open>str.lower\<close> and the character class \<open>\d\<close>. The oracles see the calls made so far, so
  that no two invocations need agree. An agent sees the keyword arguments of its
  invocation through the state it is called with.
\<close>

record env =
  llm_invoke :: "call list \<Rightarrow> str \<Rightarrow> exn + str option"
  agent_invoke :: "call list \<Rightarrow> callee \<Rightarrow> str \<Rightarrow> TeachingState \<Rightarrow> exn + reply"
  datetime_now :: "nat \<Rightarrow> nat"
  isspace :: "nat \<Rightarrow> bool"
  isdigit :: "nat \<Rightarrow> bool"
  lower :: "str \<Rightarrow> str"

text \<open>The nodes of the workflow graph, by the names used in its edges.\<close>

datatype node =
    initialize | detect_intent
  | evaluate_baseline | retrieve_knowledge | validate_content | generate_explanation
  | generate_mnemonic | create_comprehension_check | wait_for_response
  | assess_understanding | adaptive_followup | update_progress | record_gap
  | progress_entry | review_entry | assessment_entry | other_entry
  | finalize

text \<open>
  A session in flight: the state, the calls made to oracles, and the nodes entered so
  far, in order.
\<close>

record session =
  state :: TeachingState
  calls :: "call list"
  path :: "node list"

text \<open>Invoking an agent appends to the call log; a raised exception propagates.\<close>

definition invoke :: "env \<Rightarrow> callee \<Rightarrow> string \<Rightarrow> TeachingState \<Rightarrow> session \<Rightarrow> exn + (reply \<times> session)" where
  "invoke e a task args ss =
     (case agent_invoke e (calls ss) a (ascii task) args of
        Inl x \<Rightarrow> Inl x
      | Inr r \<Rightarrow> Inr (r, ss\<lparr>calls := calls ss @ [(a, ascii task)]\<rparr>))"



section \<open>Nodes of the teaching workflow\<close>

text \<open>
  A node returns a dictionary of the fields it sets, which the graph merges into the
  state; here a node returns the session with those fields overwritten. Only
  \<open>_detect_intent_node\<close> has an exception handler.
\<close>

definition set_stage :: "string \<Rightarrow> TeachingState \<Rightarrow> TeachingState" where
  "set_stage tag s = s\<lparr>workflow_stage := Some (ascii tag)\<rparr>"

definition initialize_node :: "env \<Rightarrow> session \<Rightarrow> exn + session" where
  "initialize_node e ss =
     Inr (ss\<lparr>state := set_stage ''initialized''
                 ((state ss)\<lparr>timestamp := datetime_now e (length (path ss))\<rparr>)\<rparr>)"

definition intents :: "str list" where
  "intents = [ascii ''learn'', ascii ''practice'', ascii ''progress'', ascii ''review'']"

definition detect_intent_node :: "env \<Rightarrow> session \<Rightarrow> exn + session" where
  "detect_intent_node e ss =
     (let question = or_empty (question_text (state ss))
      in if question = []
         then Inr (ss\<lparr>state := set_stage ''intent_detected''
                        ((state ss)\<lparr>intent := Some (ascii ''learn'')\<rparr>)\<rparr>)
         else
           let raw = (case llm_invoke e (calls ss) question of
                        Inl x \<Rightarrow> ascii ''learn''
                      | Inr content \<Rightarrow> lower e (strip (isspace e) (or_empty content)));
               raw = (if raw \<notin> set intents then ascii ''learn'' else raw)
           in Inr (ss\<lparr>state := set_stage ''intent_detected''
                          ((state ss)\<lparr>intent := Some raw\<rparr>),
                     calls := calls ss @ [(llm, question)]\<rparr>))"

definition evaluate_baseline_node :: "env \<Rightarrow> session \<Rightarrow> exn + session" where
  "evaluate_baseline_node e ss =
     (case invoke e socratic_agent ''evaluate_baseline'' (state ss) ss of
        Inl x \<Rightarrow> Inl x
      | Inr (s, ss') \<Rightarrow>
          Inr (ss'\<lparr>state := set_stage ''baseline_evaluated''
                 ((state ss')\<lparr>baseline_level := r_baseline_level s,
                              baseline_assessment := r_baseline_assessment s\<rparr>)\<rparr>))"

text \<open>\<open>_check_needs_validation\<close>: some dictionary concept has non-empty formulas or rules.\<close>

fun check_needs_validation :: "concept list \<Rightarrow> bool" where
  "check_needs_validation [] = False"
| "check_needs_validation (DictConcept formulas rules # cs) =
     (if truthy formulas \<or> truthy rules then True else check_needs_validation cs)"
| "check_needs_validation (ModelConcept formulas rules # cs) = check_needs_validation cs"

definition retrieve_knowledge_node :: "env \<Rightarrow> session \<Rightarrow> exn + session" where
  "retrieve_knowledge_node e ss =
     (case invoke e socratic_agent ''retrieve_knowledge'' (state ss) ss of
        Inl x \<Rightarrow> Inl x
      | Inr (s, ss') \<Rightarrow>
          let concepts = (case r_retrieved_concepts s of None \<Rightarrow> [] | Some cs \<Rightarrow> cs)
          in Inr (ss'\<lparr>state := set_stage ''knowledge_retrieved''
                    ((state ss')\<lparr>retrieved_concepts := concepts,
                                 needs_validation := check_needs_validation concepts\<rparr>)\<rparr>))"

definition validate_content_node :: "env \<Rightarrow> session \<Rightarrow> exn + session" where
  "validate_content_node e ss =
     (if skip_validation (state ss) \<or> \<not> truthy (explanation (state ss))
      then Inr (ss\<lparr>state := set_stage ''validation_skipped'' (state ss)\<rparr>)
      else case invoke e validator_agent ''validate_content'' (state ss) ss of
        Inl x \<Rightarrow> Inl x
      | Inr (s, ss') \<Rightarrow>
          Inr (ss'\<lparr>state := set_stage ''content_validated''
                 ((state ss')\<lparr>validation_result := r_validation_result s,
                              verified_sources :=
                                (case r_verification_sources s of None \<Rightarrow> [] | Some v \<Rightarrow> v)\<rparr>)\<rparr>))"

definition generate_explanation_node :: "env \<Rightarrow> session \<Rightarrow> exn + session" where
  "generate_explanation_node e ss =
     (case invoke e socratic_agent ''generate_explanation'' (state ss) ss of
        Inl x \<Rightarrow> Inl x
      | Inr (s, ss') \<Rightarrow>
          Inr (ss'\<lparr>state := set_stage ''explanation_generated''
                 ((state ss')\<lparr>explanation :=
                                (case r_explanation s of None \<Rightarrow> Some [] | Some v \<Rightarrow> v)\<rparr>)\<rparr>))"

definition generate_mnemonic_node :: "env \<Rightarrow> session \<Rightarrow> exn + session" where
  "generate_mnemonic_node e ss =
     (if skip_mnemonic (state ss)
         \<or> assessment_result (state ss) = Some (ascii ''fully_understood'')
      then Inr (ss\<lparr>state := set_stage ''mnemonic_skipped'' (state ss)\<rparr>)
      else case invoke e mnemonic_agent ''generate_mnemonic'' (state ss) ss of
        Inl x \<Rightarrow> Inl x
      | Inr (s, ss') \<Rightarrow>
          let generated = r_generated_mnemonic s;
              recommended_strategies =
                (case r_recommended_strategies s of None \<Rightarrow> [] | Some v \<Rightarrow> v);
              devices = mnemonic_devices (state ss');
              devices = (case generated of
                           None \<Rightarrow> devices
                         | Some g \<Rightarrow> if g \<noteq> [] then devices @ [g] else devices)
          in Inr (ss'\<lparr>state := set_stage ''mnemonic_generated''
                    ((state ss')\<lparr>generated_mnemonic := generated,
                                 recommended_strategy :=
                                   (case recommended_strategies of
                                      [] \<Rightarrow> None | x # xs \<Rightarrow> Some x),
                                 mnemonic_devices := devices\<rparr>)\<rparr>))"

definition create_comprehension_check_node :: "env \<Rightarrow> session \<Rightarrow> exn + session" where
  "create_comprehension_check_node e ss =
     (case invoke e socratic_agent ''generate_questions'' (state ss) ss of
        Inl x \<Rightarrow> Inl x
      | Inr (s, ss') \<Rightarrow>
          Inr (ss'\<lparr>state := set_stage ''comprehension_check_created''
                 ((state ss')\<lparr>comprehension_questions :=
                                (case r_comprehension_questions s of
                                   None \<Rightarrow> [] | Some v \<Rightarrow> v)\<rparr>)\<rparr>))"

definition wait_for_response_node :: "env \<Rightarrow> session \<Rightarrow> exn + session" where
  "wait_for_response_node e ss =
     Inr (ss\<lparr>state := set_stage ''waiting_for_response'' (state ss)\<rparr>)"

text \<open>
  \<open>_assess_understanding_node\<close>. The expected key points that the node collects from
  the comprehension questions are a keyword argument of the first invocation, computed
  from the state. The second invocation receives the first one's \<open>assessment_result\<close>
  as a keyword argument.
\<close>

definition assess_understanding_node :: "env \<Rightarrow> session \<Rightarrow> exn + session" where
  "assess_understanding_node e ss =
     (if \<not> truthy (learner_response (state ss))
      then Inr (ss\<lparr>state := set_stage ''assessment_failed''
                     ((state ss)\<lparr>assessment_result := Some (ascii ''not_understood'')\<rparr>)\<rparr>)
      else case invoke e assessor_agent ''assess_understanding'' (state ss) ss of
        Inl x \<Rightarrow> Inl x
      | Inr (s_assess, ss1) \<Rightarrow>
         (case invoke e assessor_agent ''recommend_next_action''
                 ((state ss1)\<lparr>assessment_result := r_assessment_result s_assess\<rparr>) ss1 of
            Inl x \<Rightarrow> Inl x
          | Inr (s_next, ss2) \<Rightarrow>
              Inr (ss2\<lparr>state := set_stage ''understanding_assessed''
                     ((state ss2)\<lparr>assessment_result := r_assessment_result s_assess,
                                  confidence_level := r_confidence_level s_assess,
                                  assessment_details := r_assessment_details s_assess,
                                  key_points_understood :=
                                    (case r_key_points_understood s_assess of
                                       None \<Rightarrow> [] | Some v \<Rightarrow> v),
                                  misunderstandings :=
                                    (case r_misunderstandings s_assess of
                                       None \<Rightarrow> [] | Some v \<Rightarrow> v),
                                  next_action := r_next_action s_next\<rparr>)\<rparr>)))"

definition adaptive_followup_node :: "env \<Rightarrow> session \<Rightarrow> exn + session" where
  "adaptive_followup_node e ss =
     (case invoke e socratic_agent ''adaptive_followup'' (state ss) ss of
        Inl x \<Rightarrow> Inl x
      | Inr (s, ss') \<Rightarrow>
          Inr (ss'\<lparr>state := set_stage ''followup_generated''
                 ((state ss')\<lparr>explanation :=
                                (case r_explanation s of
                                   None \<Rightarrow> explanation (state ss') | Some v \<Rightarrow> v)\<rparr>)\<rparr>))"

definition update_progress_node :: "env \<Rightarrow> session \<Rightarrow> exn + session" where
  "update_progress_node e ss =
     (if assessment_result (state ss) \<noteq> Some (ascii ''fully_understood'')
      then Inr (ss\<lparr>state := set_stage ''progress_skipped'' (state ss)\<rparr>)
      else case invoke e progress_agent ''track_progress'' (state ss) ss of
        Inl x \<Rightarrow> Inl x
      | Inr (s, ss') \<Rightarrow>
          Inr (ss'\<lparr>state := set_stage ''progress_updated''
                 ((state ss')\<lparr>knowledge_gaps :=
                                (case r_knowledge_gaps s of None \<Rightarrow> [] | Some v \<Rightarrow> v)\<rparr>)\<rparr>))"

definition record_gap_node :: "env \<Rightarrow> session \<Rightarrow> exn + session" where
  "record_gap_node e ss = Inr (ss\<lparr>state := set_stage ''gap_recorded'' (state ss)\<rparr>)"

definition finalize_node :: "env \<Rightarrow> session \<Rightarrow> exn + session" where
  "finalize_node e ss =
     Inr (ss\<lparr>state := set_stage ''completed''
                 ((state ss)\<lparr>timestamp := datetime_now e (length (path ss))\<rparr>)\<rparr>)"

definition progress_entry_node :: "env \<Rightarrow> session \<Rightarrow> exn + session" where
  "progress_entry_node e ss =
     (case invoke e progress_agent ''analyze_efficiency'' (state ss) ss of
        Inl x \<Rightarrow> Inl x
      | Inr (s, ss') \<Rightarrow>
          Inr (ss'\<lparr>state := set_stage ''progress_overview_generated''
                 ((state ss')\<lparr>learning_efficiency := r_efficiency_metrics s\<rparr>)\<rparr>))"

definition review_entry_node :: "env \<Rightarrow> session \<Rightarrow> exn + session" where
  "review_entry_node e ss =
     (case invoke e progress_agent ''recommend_review'' (state ss) ss of
        Inl x \<Rightarrow> Inl x
      | Inr (s, ss') \<Rightarrow>
          Inr (ss'\<lparr>state := set_stage ''review_recommendations_generated''
                 ((state ss')\<lparr>review_reminders :=
                                (case r_review_recommendations s of
                                   None \<Rightarrow> [] | Some v \<Rightarrow> v)\<rparr>)\<rparr>))"

definition assessment_entry_node :: "env \<Rightarrow> session \<Rightarrow> exn + session" where
  "assessment_entry_node e ss =
     (case invoke e assessor_agent ''assess_understanding'' (state ss) ss of
        Inl x \<Rightarrow> Inl x
      | Inr (s, ss') \<Rightarrow>
          Inr (ss'\<lparr>state := set_stage ''assessment_only_completed''
                 ((state ss')\<lparr>assessment_result := r_assessment_result s,
                              confidence_level := r_confidence_level s,
                              assessment_details := r_assessment_details s\<rparr>)\<rparr>))"

definition other_entry_node :: "env \<Rightarrow> session \<Rightarrow> exn + session" where
  "other_entry_node e ss =
     Inr (ss\<lparr>state := set_stage ''fallback_to_learn''
                 ((state ss)\<lparr>intent := Some (ascii ''learn'')\<rparr>)\<rparr>)"



section \<open>Routing\<close>

definition route_by_intent :: "TeachingState \<Rightarrow> str" where
  "route_by_intent s =
     (let i = (if truthy (intent s) then or_empty (intent s) else ascii ''learn'')
      in if i \<in> set intents then i else ascii ''other'')"

text \<open>
  The keyword list of \<open>_should_validate_content\<close>: five Chinese words (rule, formula, law,
  tax rate, quota), the percent sign, and the character for "rate".
\<close>

definition validation_keywords :: "str list" where
  "validation_keywords =
     [[35268, 21017], [20844, 24335], [27861, 24459], [31246, 29575], [38480, 39069],
      [37], [29575]]"

definition should_validate_content :: "env \<Rightarrow> TeachingState \<Rightarrow> str" where
  "should_validate_content e s =
     (if skip_validation s then ascii ''skip''
      else let expl = or_empty (explanation s)
           in if expl = [] then ascii ''skip''
              else if any_in validation_keywords expl then ascii ''validate''
              else if has_digit (isdigit e) expl then ascii ''validate''
              else ascii ''skip'')"

definition should_generate_mnemonic :: "TeachingState \<Rightarrow> str" where
  "should_generate_mnemonic s =
     (if skip_mnemonic s then ascii ''skip''
      else let expl = or_empty (explanation s)
           in if assessment_result s = Some (ascii ''not_understood'') then ascii ''generate''
              else if length expl > 300 then ascii ''generate''
              else ascii ''skip'')"

definition route_after_assessment :: "TeachingState \<Rightarrow> str" where
  "route_after_assessment s =
     (if truthy (next_action s) then or_empty (next_action s)
      else if assessment_result s = Some (ascii ''fully_understood'') then ascii ''continue''
      else if assessment_result s = Some (ascii ''partially_understood'')
      then ascii ''adaptive_followup''
      else if retry_count s < max_retries s then ascii ''retry''
      else ascii ''record_gap'')"


section \<open>The workflow graph\<close>

text \<open>
  \<open>_build_workflow\<close> declares the edges below. It registers the nodes \<open>initialize\<close>,
  \<open>detect_intent\<close> and \<open>finalize\<close>; the registrations of the other nodes are commented
  out in the source. Here every name in an edge is bound to the method \<open>_<name>_node\<close> of
  the class, as those lines bind it. A conditional edge looks the router's word up in
  its table; a word that is not a key of the table is an error of the graph.
\<close>

definition run_node :: "env \<Rightarrow> node \<Rightarrow> session \<Rightarrow> exn + session" where
  "run_node e n =
     (case n of
        initialize \<Rightarrow> initialize_node e
      | detect_intent \<Rightarrow> detect_intent_node e
      | evaluate_baseline \<Rightarrow> evaluate_baseline_node e
      | retrieve_knowledge \<Rightarrow> retrieve_knowledge_node e
      | validate_content \<Rightarrow> validate_content_node e
      | generate_explanation \<Rightarrow> generate_explanation_node e
      | generate_mnemonic \<Rightarrow> generate_mnemonic_node e
      | create_comprehension_check \<Rightarrow> create_comprehension_check_node e
      | wait_for_response \<Rightarrow> wait_for_response_node e
      | assess_understanding \<Rightarrow> assess_understanding_node e
      | adaptive_followup \<Rightarrow> adaptive_followup_node e
      | update_progress \<Rightarrow> update_progress_node e
      | record_gap \<Rightarrow> record_gap_node e
      | progress_entry \<Rightarrow> progress_entry_node e
      | review_entry \<Rightarrow> review_entry_node e
      | assessment_entry \<Rightarrow> assessment_entry_node e
      | other_entry \<Rightarrow> other_entry_node e
      | finalize \<Rightarrow> finalize_node e)"

definition branch :: "str \<Rightarrow> (string \<times> node) list \<Rightarrow> exn + node option" where
  "branch word table =
     (case map_of (map (\<lambda>(k, n). (ascii k, n)) table) word of
        None \<Rightarrow> Inl (Exception word)
      | Some n \<Rightarrow> Inr (Some n))"

text \<open>The successor of a node; \<open>None\<close> is \<open>END\<close>.\<close>

definition next_node :: "env \<Rightarrow> node \<Rightarrow> TeachingState \<Rightarrow> exn + node option" where
  "next_node e n s =
     (case n of
        initialize \<Rightarrow> Inr (Some detect_intent)
      | detect_intent \<Rightarrow>
          branch (route_by_intent s)
            [(''learn'', evaluate_baseline), (''practice'', assessment_entry),
             (''progress'', progress_entry), (''review'', review_entry),
             (''other'', other_entry)]
      | evaluate_baseline \<Rightarrow> Inr (Some retrieve_knowledge)
      | retrieve_knowledge \<Rightarrow>
          branch (should_validate_content e s)
            [(''validate'', validate_content), (''skip'', generate_explanation)]
      | validate_content \<Rightarrow> Inr (Some generate_explanation)
      | generate_explanation \<Rightarrow>
          branch (should_generate_mnemonic s)
            [(''generate'', generate_mnemonic), (''skip'', create_comprehension_check)]
      | generate_mnemonic \<Rightarrow> Inr (Some create_comprehension_check)
      | create_comprehension_check \<Rightarrow> Inr (Some wait_for_response)
      | wait_for_response \<Rightarrow> Inr (Some assess_understanding)
      | assess_understanding \<Rightarrow>
          branch (route_after_assessment s)
            [(''continue'', update_progress), (''adaptive_followup'', adaptive_followup),
             (''retry'', generate_explanation), (''record_gap'', record_gap)]
      | adaptive_followup \<Rightarrow> Inr (Some create_comprehension_check)
      | update_progress \<Rightarrow> Inr (Some finalize)
      | record_gap \<Rightarrow> Inr (Some finalize)
      | progress_entry \<Rightarrow> Inr (Some finalize)
      | review_entry \<Rightarrow> Inr (Some finalize)
      | assessment_entry \<Rightarrow> Inr (Some finalize)
      | other_entry \<Rightarrow> Inr (Some finalize)
      | finalize \<Rightarrow> Inr None)"

text \<open>
  What an invocation of the graph gives: the final session, an exception, or, when the
  given number of node executions did not reach \<open>END\<close>, the session still in flight.
\<close>

datatype 'a outcome = Returned 'a | Raised exn | Running 'a






section \<open>The reasoning-action cycle of the knowledge assessor\<close>

text \<open>
  Values of tool arguments and tool results, as far as \<open>tool_node\<close> handles them: the
  language model handle, texts, numbers and lists of texts.
\<close>

datatype val = VLlm | VStr str | VInt int | VList "str list"

type_synonym kwargs = "str \<rightharpoonup> val"

record tool_call =
  tc_name :: str
  tc_args :: kwargs
  tc_id :: str

datatype message =
    HumanMessage str
  | AIMessage str "tool_call list"
  | ToolMessage str str

text \<open>The fields of \<open>KnowledgeAssessorState\<close> that the cycle reads or writes.\<close>

record assessor_state =
  messages :: "message list"
  task_type :: str
  as_explanation :: str
  as_learner_response :: str
  as_expected_key_points :: "str list"
  as_retry_count :: int
  as_max_retries :: int
  next_step :: "str option"

text \<open>
  What the cycle is given: the language model bound to the tools (it answers a message
  history with a message, or raises), the registered tools by name (a tool returns a
  value or raises), \<open>json.dumps\<close>, and the two opening messages built from the prompts.
\<close>

record renv =
  llm_with_tools :: "message list \<Rightarrow> exn + message"
  tools :: "str \<rightharpoonup> (kwargs \<Rightarrow> exn + val)"
  json_dumps :: "val \<Rightarrow> exn + str"
  first_messages :: "assessor_state \<Rightarrow> message list"

text \<open>\<open>ToolExecutor.invoke\<close>\<close>

definition tool_executor_invoke ::
    "(str \<rightharpoonup> (kwargs \<Rightarrow> exn + val)) \<Rightarrow> tool_call \<Rightarrow> exn + val" where
  "tool_executor_invoke registry tc =
     (case registry (tc_name tc) of
        None \<Rightarrow> Inl (Exception (ascii ''Unknown tool: '' @ tc_name tc))
      | Some tool \<Rightarrow> tool (tc_args tc))"

definition agent_node :: "renv \<Rightarrow> assessor_state \<Rightarrow> exn + assessor_state" where
  "agent_node r st =
     (let msgs = (if messages st = [] then first_messages r st else messages st)
      in case llm_with_tools r msgs of
           Inl x \<Rightarrow> Inl x
         | Inr response \<Rightarrow> Inr (st\<lparr>messages := msgs @ [response]\<rparr>))"

text \<open>
  The arguments that \<open>tool_node\<close> fills in from the agent's state before dispatch.
\<close>

definition set_default :: "str \<Rightarrow> val \<Rightarrow> kwargs \<Rightarrow> kwargs" where
  "set_default k v a = (if a k = None then a(k \<mapsto> v) else a)"

definition inject :: "assessor_state \<Rightarrow> tool_call \<Rightarrow> tool_call" where
  "inject st tc =
     (if tc_name tc = ascii ''extract_key_points''
      then tc\<lparr>tc_args := (tc_args tc)(ascii ''llm'' \<mapsto> VLlm)\<rparr>
      else if tc_name tc = ascii ''identify_misunderstandings''
      then tc\<lparr>tc_args :=
                set_default (ascii ''explanation'') (VStr (as_explanation st))
                  (set_default (ascii ''expected_key_points'')
                     (VList (as_expected_key_points st)) (tc_args tc))\<rparr>
      else if tc_name tc = ascii ''assess_understanding_level''
      then tc\<lparr>tc_args :=
                set_default (ascii ''learner_response'') (VStr (as_learner_response st))
                  (tc_args tc)\<rparr>
      else if tc_name tc = ascii ''decide_next_action''
      then tc\<lparr>tc_args :=
                set_default (ascii ''max_retries'') (VInt (as_max_retries st))
                  (set_default (ascii ''retry_count'') (VInt (as_retry_count st))
                     (tc_args tc))\<rparr>
      else tc)"

text \<open>The prefix of an error observation: six Chinese characters, a colon and a space.\<close>

definition error_prefix :: str where
  "error_prefix = [24037, 20855, 25191, 34892, 38169, 35823, 58, 32]"

text \<open>
  The body of the loop over \<open>tool_calls\<close>: the \<open>try\<close> block covers the dispatch and
  \<open>json.dumps\<close>; the handler turns the exception into the observation.
\<close>

definition observe :: "renv \<Rightarrow> tool_call \<Rightarrow> message" where
  "observe r tc =
     (case (case tool_executor_invoke (tools r) tc of
              Inl x \<Rightarrow> Inl x
            | Inr result \<Rightarrow> json_dumps r result) of
        Inr content \<Rightarrow> ToolMessage content (tc_id tc)
      | Inl (Exception description) \<Rightarrow> ToolMessage (error_prefix @ description) (tc_id tc))"

text \<open>
  \<open>tool_node\<close>. \<open>messages[-1]\<close> raises on an empty history. The filled-in arguments are
  written into the argument dictionary of the tool call itself, which the last message
  of the history holds.
\<close>

definition tool_node :: "renv \<Rightarrow> assessor_state \<Rightarrow> exn + assessor_state" where
  "tool_node r st =
     (if messages st = [] then Inl (Exception (ascii ''list index out of range''))
      else case last (messages st) of
        AIMessage content (tc # tcs) \<Rightarrow>
          let tool_calls = map (inject st) (tc # tcs)
          in Inr (st\<lparr>messages := butlast (messages st) @ [AIMessage content tool_calls]
                                   @ map (observe r) tool_calls,
                     next_step := Some (ascii ''agent'')\<rparr>)
      | _ \<Rightarrow> Inr (st\<lparr>next_step := Some (ascii ''end'')\<rparr>))"

definition should_continue :: "assessor_state \<Rightarrow> str" where
  "should_continue st =
     (case last (messages st) of
        AIMessage content (tc # tcs) \<Rightarrow> ascii ''tools''
      | _ \<Rightarrow> ascii ''end'')"

text \<open>
  The graph of the agent: \<open>agent\<close>, then \<open>tools\<close> and back to \<open>agent\<close> while the last
  message requests tools, else \<open>extract_result\<close> and \<open>END\<close>. \<open>extract_result\<close> only reads
  the history and is left out. The fuel bounds the number of oracle steps.
\<close>

fun react :: "renv \<Rightarrow> nat \<Rightarrow> assessor_state \<Rightarrow> assessor_state outcome" where
  "react r 0 st = Running st"
| "react r (Suc fuel) st =
     (case agent_node r st of
        Inl x \<Rightarrow> Raised x
      | Inr st1 \<Rightarrow>
          if should_continue st1 = ascii ''tools''
          then (case tool_node r st1 of
                  Inl x \<Rightarrow> Raised x
                | Inr st2 \<Rightarrow> react r fuel st2)
          else Returned st1)"



section \<open>Concrete environments\<close>

text \<open>A reply with every key unset, and an environment whose oracles always give it.\<close>

definition empty_reply :: reply where
  "empty_reply =
     \<lparr>r_baseline_level = None, r_baseline_assessment = None, r_retrieved_concepts = None,
      r_explanation = None, r_comprehension_questions = None, r_validation_result = None,
      r_verification_sources = None, r_generated_mnemonic = None,
      r_recommended_strategies = None, r_assessment_result = None,
      r_confidence_level = None, r_assessment_details = None,
      r_key_points_understood = None, r_misunderstandings = None, r_next_action = None,
      r_knowledge_gaps = None, r_efficiency_metrics = None,
      r_review_recommendations = None\<rparr>"

definition quiet_env :: env where
  "quiet_env =
     \<lparr>llm_invoke = (\<lambda>cs q. Inr None),
      agent_invoke = (\<lambda>cs a t s. Inr empty_reply),
      datetime_now = (\<lambda>n. n),
      isspace = py_isspace,
      isdigit = ascii_digit,
      lower = (\<lambda>s. s)\<rparr>"





text \<open>A session fresh from \<open>create_initial_state\<close>.\<close>

definition fresh :: session where
  "fresh = \<lparr>state = create_initial_state 1 2 0 None None, calls = [], path = []\<rparr>"

text \<open>
  A state whose assessment is \<open>fully_understood\<close> and whose explanation has 301
  characters.
\<close>

definition understood_state :: TeachingState where
  "understood_state =
     (create_initial_state 1 2 0 None None)
       \<lparr>assessment_result := Some (ascii ''fully_understood''),
        explanation := Some (replicate 301 97)\<rparr>"

text \<open>
  A learner response, five expected key points, and four understood key points, each of
  which contains an expected one.
\<close>

definition sample_response :: str where
  "sample_response = ascii ''the slope of the tangent line''"


definition sample_expected :: "str list" where
  "sample_expected =
     [ascii ''slope'', ascii ''tangent'', ascii ''limit'', ascii ''rate'', ascii ''secant'']"

definition sample_understood :: "str list" where
  "sample_understood =
     [ascii ''slope of a line'', ascii ''tangent line'', ascii ''limit of ratios'',
      ascii ''rate of change'']"


text \<open>A state whose explanation is the first text of the validation examples.\<close>

definition inflation_state :: TeachingState where
  "inflation_state =
     (create_initial_state 1 2 0 None None)
       \<lparr>explanation := Some (ascii ''Inflation reached 4% in 2023'')\<rparr>"

text \<open>
  A tool call, a cycle environment whose only tool raises, whose language model asks for
  that tool once and then answers in plain text, and the agent state after the request.
\<close>

definition failing_call :: tool_call where
  "failing_call =
     \<lparr>tc_name = ascii ''assess_understanding_level'', tc_args = Map.empty,
      tc_id = ascii ''call_1''\<rparr>"

definition failing_renv :: renv where
  "failing_renv =
     \<lparr>llm_with_tools = (\<lambda>msgs. if length msgs \<le> 2 then Inr (AIMessage [] [failing_call])
                                 else Inr (AIMessage (ascii ''done'') [])),
      tools = [ascii ''assess_understanding_level'' \<mapsto> (\<lambda>args. Inl (Exception (ascii ''boom'')))],
      json_dumps = (\<lambda>v. Inr []),
      first_messages = (\<lambda>st. [HumanMessage (ascii ''system''), HumanMessage (ascii ''task'')])\<rparr>"

definition asked :: assessor_state where
  "asked =
     \<lparr>messages = [HumanMessage (ascii ''system''), HumanMessage (ascii ''task''),
                  AIMessage [] [failing_call]],
      task_type = ascii ''assess_understanding'', as_explanation = [],
      as_learner_response = ascii ''an answer'', as_expected_key_points = [],
      as_retry_count = 0, as_max_retries = 3, next_step = None\<rparr>"


section \<open>Invariants of the learning loop\<close>





section \<open>Properties of the workflow graph\<close>

lemma invoke_state: "invoke e a t s ss = Inr (r, ss') \<Longrightarrow> state ss' = state ss \<and> path ss' = path ss"
  by (auto simp: invoke_def split: sum.splits)

lemma set_stage_simps [simp]:
  "learner_response (set_stage t s) = learner_response s"
  "next_action (set_stage t s) = next_action s"
  "retry_count (set_stage t s) = retry_count s"
  "max_retries (set_stage t s) = max_retries s"
  "assessment_result (set_stage t s) = assessment_result s"
  "intent (set_stage t s) = intent s"
  by (simp_all add: set_stage_def)

lemmas node_defs = initialize_node_def detect_intent_node_def evaluate_baseline_node_def
  retrieve_knowledge_node_def validate_content_node_def generate_explanation_node_def
  generate_mnemonic_node_def create_comprehension_check_node_def wait_for_response_node_def
  assess_understanding_node_def adaptive_followup_node_def update_progress_node_def
  record_gap_node_def finalize_node_def progress_entry_node_def review_entry_node_def
  assessment_entry_node_def other_entry_node_def


lemma branch_simps:
  "branch w [] = Inl (Exception w)"
  "branch w ((k, n) # t) = (if w = ascii k then Inr (Some n) else branch w t)"
  by (auto simp: branch_def split: option.splits)






lemma set_stage_question [simp]: "question_text (set_stage t s) = question_text s"
  by (simp add: set_stage_def)






text \<open>No node writes the retry counter, the retry ceiling or the learner response.\<close>

lemma run_node_retry_count:
  "run_node e n ss = Inr ss' \<Longrightarrow>
     retry_count (state ss') = retry_count (state ss)
     \<and> max_retries (state ss') = max_retries (state ss)
     \<and> learner_response (state ss') = learner_response (state ss)"
  by (cases n)
     (auto simp: run_node_def node_defs Let_def
           dest!: invoke_state split: sum.splits if_splits prod.splits)






text \<open>
  C4, as stated, fails: with assessment \<open>fully_understood\<close> and an explanation of 301
  characters the router after \<open>generate_explanation\<close> enters \<open>generate_mnemonic\<close>.
\<close>

theorem mnemonic_entered_when_understood:
  "next_node quiet_env generate_explanation understood_state = Inr (Some generate_mnemonic)"
  by (simp add: next_node_def should_generate_mnemonic_def branch_simps or_empty_def
        understood_state_def create_initial_state_def Let_def ascii_def)

text \<open>
  C4 (mnemonic suppression), amended. The node \<open>generate_mnemonic\<close> is entered exactly
  from \<open>generate_explanation\<close>, when mnemonic generation is not suppressed and the
  assessment is \<open>not_understood\<close> or the explanation is longer than 300 characters. When
  the assessment is \<open>fully_understood\<close> the node, if entered, invokes no agent and
  changes nothing but the stage tag, which becomes \<open>mnemonic_skipped\<close>.
\<close>

theorem mnemonic_suppression:
  "(next_node e n s = Inr (Some generate_mnemonic) \<longleftrightarrow>
      n = generate_explanation \<and> \<not> skip_mnemonic s
      \<and> (assessment_result s = Some (ascii ''not_understood'')
         \<or> length (or_empty (explanation s)) > 300))
   \<and> (assessment_result (state ss) = Some (ascii ''fully_understood'') \<longrightarrow>
        generate_mnemonic_node e ss =
          Inr (ss\<lparr>state := (state ss)\<lparr>workflow_stage := Some (ascii ''mnemonic_skipped'')\<rparr>\<rparr>))"
  by (cases n)
     (auto simp: next_node_def should_generate_mnemonic_def branch_simps
        should_validate_content_def route_by_intent_def route_after_assessment_def
        generate_mnemonic_node_def set_stage_def intents_def
        Let_def ascii_def split: if_splits)

text \<open>
  At \<open>understood_state\<close> the node returns at once, with the call log empty.
\<close>

theorem mnemonic_suppression_witness:
  "generate_mnemonic_node quiet_env (fresh\<lparr>state := understood_state\<rparr>) =
     Inr (fresh\<lparr>state := understood_state\<lparr>workflow_stage := Some (ascii ''mnemonic_skipped'')\<rparr>\<rparr>)
   \<and> calls (fresh\<lparr>state := understood_state\<rparr>) = []"
  using mnemonic_suppression[of quiet_env generate_explanation understood_state
          "fresh\<lparr>state := understood_state\<rparr>"]
  by (simp add: understood_state_def fresh_def)

text \<open>
  C10 (assessment without a response). When \<open>learner_response\<close> is unset or empty,
  \<open>assess_understanding\<close> returns the session with \<open>assessment_result\<close> set to
  \<open>not_understood\<close> and the stage tag set to \<open>assessment_failed\<close>: every other field of
  the state and the call log are as before, and the result is the same whatever the
  agents would do.
\<close>

theorem assess_without_response:
  assumes "learner_response (state ss) = None \<or> learner_response (state ss) = Some []"
  shows "assess_understanding_node e ss =
           Inr (ss\<lparr>state := (state ss)\<lparr>assessment_result := Some (ascii ''not_understood''),
                                        workflow_stage := Some (ascii ''assessment_failed'')\<rparr>\<rparr>)
         \<and> assess_understanding_node (e\<lparr>agent_invoke := f\<rparr>) ss = assess_understanding_node e ss"
  using assms by (auto simp: assess_understanding_node_def truthy_def set_stage_def)

text \<open>The fresh session has no learner response.\<close>

theorem assess_without_response_witness:
  "assess_understanding_node quiet_env fresh =
     Inr (fresh\<lparr>state := (state fresh)\<lparr>assessment_result := Some (ascii ''not_understood''),
                                         workflow_stage := Some (ascii ''assessment_failed'')\<rparr>\<rparr>)
   \<and> calls fresh = []"
  using assess_without_response[of fresh quiet_env "agent_invoke quiet_env"]
  by (simp add: fresh_def create_initial_state_def)


text \<open>
  C7 (validation trigger). The node \<open>validate_content\<close> is entered exactly from
  \<open>retrieve_knowledge\<close>, when validation is not suppressed and the explanation of the
  state contains one of the keywords or a digit. With the digit class of the environment
  being \<open>[0-9]\<close> on ASCII, the explanation "Inflation reached 4% in 2023" leads to
  \<open>validate_content\<close> and "A derivative measures rate of change" to
  \<open>generate_explanation\<close>.
\<close>

theorem validate_content_trigger:
  assumes "\<And>c. c < 128 \<Longrightarrow> isdigit e c = ascii_digit c"
  shows "(next_node e n s = Inr (Some validate_content) \<longleftrightarrow>
           n = retrieve_knowledge \<and> \<not> skip_validation s
           \<and> ((\<exists>k \<in> set validation_keywords. contains (or_empty (explanation s)) k)
              \<or> (\<exists>c \<in> set (or_empty (explanation s)). isdigit e c)))
       \<and> (\<not> skip_validation s \<and> explanation s = Some (ascii ''Inflation reached 4% in 2023'')
            \<longrightarrow> next_node e retrieve_knowledge s = Inr (Some validate_content))
       \<and> (explanation s = Some (ascii ''A derivative measures rate of change'')
            \<longrightarrow> next_node e retrieve_knowledge s = Inr (Some generate_explanation))"
proof (intro conjI impI)
  show "next_node e n s = Inr (Some validate_content) \<longleftrightarrow>
           n = retrieve_knowledge \<and> \<not> skip_validation s
           \<and> ((\<exists>k \<in> set validation_keywords. contains (or_empty (explanation s)) k)
              \<or> (\<exists>c \<in> set (or_empty (explanation s)). isdigit e c))"
  proof (cases "or_empty (explanation s) = []")
    case True
    then show ?thesis
      by (cases n)
         (auto simp: next_node_def should_generate_mnemonic_def branch_simps
            should_validate_content_def route_by_intent_def route_after_assessment_def
            validation_keywords_def intents_def Let_def ascii_def split: if_splits)
  next
    case False
    then show ?thesis
      by (cases n)
         (auto simp: next_node_def should_generate_mnemonic_def branch_simps
            should_validate_content_def route_by_intent_def route_after_assessment_def
            any_in_def has_digit_def list_ex_iff intents_def Let_def ascii_def split: if_splits)
  qed
next
  assume "\<not> skip_validation s \<and> explanation s = Some (ascii ''Inflation reached 4% in 2023'')"
  then show "next_node e retrieve_knowledge s = Inr (Some validate_content)"
    by (simp add: next_node_def branch_simps should_validate_content_def or_empty_def
          any_in_def validation_keywords_def Let_def ascii_def)
next
  assume "explanation s = Some (ascii ''A derivative measures rate of change'')"
  then show "next_node e retrieve_knowledge s = Inr (Some generate_explanation)"
    by (simp add: next_node_def branch_simps should_validate_content_def or_empty_def
          any_in_def has_digit_def validation_keywords_def Let_def ascii_def assms ascii_digit_def)
qed

text \<open>
  The first example in the quiet environment, whose digit class is \<open>ascii_digit\<close>.
\<close>

theorem validate_content_trigger_witness:
  "next_node quiet_env retrieve_knowledge inflation_state = Inr (Some validate_content)"
  using validate_content_trigger[of quiet_env retrieve_knowledge inflation_state]
  by (simp add: quiet_env_def inflation_state_def create_initial_state_def)


section \<open>Properties of the assessment tool\<close>

lemma sample_simps:
  "length sample_response = 29"
  "sample_response \<noteq> []"
  "sample_expected \<noteq> []"
  "length sample_expected = 5"
  "strip py_isspace sample_response = sample_response"
  "\<not> any_in negative_keywords sample_response"
  by (simp_all add: sample_response_def sample_expected_def ascii_def strip_def py_isspace_def
        any_in_def negative_keywords_def)


lemma sample_covered:
  "covered sample_understood sample_expected = 4"
  "covered (take 2 sample_understood) sample_expected = 2"
  "covered [] sample_expected = 0"
  by (simp_all add: covered_def sample_understood_def sample_expected_def ascii_def)






lemma sample_more:
  "covered [ascii ''slope of a line''] sample_expected = 1"
  "covered (rev sample_understood) sample_expected = 4"
  "length (strip py_isspace (sample_response @ [19981, 25026])) = 31"
  "contains (sample_response @ [19981, 25026]) [19981, 25026]"
  "[19981, 25026] \<in> set negative_keywords"
  by (simp_all add: covered_def sample_understood_def sample_expected_def sample_response_def
        ascii_def strip_def py_isspace_def negative_keywords_def)


text \<open>
  C6, as stated, fails: with the same learner response, expected key points and
  misunderstandings, two assessments differ when the understood key points differ.
\<close>

theorem assessment_depends_on_understood_points:
  "a_result (assess_understanding_level py_isspace sample_understood [] sample_expected sample_response)
     = fully_understood
   \<and> a_result (assess_understanding_level py_isspace [] [] sample_expected sample_response)
     = not_understood"
  by (simp add: assess_understanding_level_def coverage_def sample_simps sample_covered Let_def)

text \<open>
  C6 (deterministic assessment), amended. With the same learner response, expected key
  points and misunderstandings, two assessments agree whenever the understood key points
  agree, and already when they agree in number and in the number of covered points.
\<close>

theorem assessment_deterministic:
  assumes "covered kpu1 want = covered kpu2 want" and "length kpu1 = length kpu2"
  shows "assess_understanding_level sp kpu1 mis want resp
         = assess_understanding_level sp kpu2 mis want resp"
  using assms by (simp add: assess_understanding_level_def coverage_def)

text \<open>
  The sample's understood key points in reverse order give the same assessment.
\<close>

theorem assessment_deterministic_witness:
  "assess_understanding_level py_isspace sample_understood [] sample_expected sample_response
   = assess_understanding_level py_isspace (rev sample_understood) [] sample_expected sample_response"
  using assessment_deterministic[of sample_understood sample_expected "rev sample_understood"
          py_isspace "[]" sample_response]
  by (simp add: sample_covered sample_more)


section \<open>Properties of the mnemonic tools\<close>

lemma analyze_concept_features_fields:
  "formulas_count (analyze_concept_features dg nm x) = Some (int (digit_runs dg False x))"
  "has_comparison (analyze_concept_features dg nm x)
     = Some (contains x (ascii ''vs'') \<or> contains x [23545, 27604])"
  "abstraction_level (analyze_concept_features dg nm x) = Some (ascii ''medium'')"
  by (simp_all add: analyze_concept_features_def Let_def)

lemma select_mnemonic_strategy_general:
  "(\<forall>n. formulas_count f = Some n \<and> n \<ge> 3
        \<longrightarrow> ascii ''acronym'' \<in> set (select_mnemonic_strategy f))
   \<and> (has_comparison f = Some True
        \<longrightarrow> ascii ''comparison'' \<in> set (select_mnemonic_strategy f))
   \<and> (abstraction_level f = Some (ascii ''high'')
        \<longrightarrow> ascii ''analogy'' \<in> set (select_mnemonic_strategy f))
   \<and> ((\<forall>n. formulas_count f = Some n \<longrightarrow> n < 3) \<and> has_comparison f \<noteq> Some True
        \<and> abstraction_level f \<noteq> Some (ascii ''high'')
       \<longrightarrow> select_mnemonic_strategy f = [ascii ''acronym''])
   \<and> select_mnemonic_strategy f \<noteq> []"
  by (auto simp add: select_mnemonic_strategy_def Let_def split: option.splits)

text \<open>
  C8 (strategy selection). For every feature record: a count of at least 3 selects
  \<open>acronym\<close>, a true comparison flag selects \<open>comparison\<close>, abstraction level \<open>high\<close>
  selects \<open>analogy\<close>, when none of the three holds the result is \<open>[acronym]\<close>, and the
  result is never empty. For the record that \<open>analyze_concept_features\<close> produces from
  an explanation: at least three runs of digits select \<open>acronym\<close>, the word "vs" or its
  Chinese counterpart selects \<open>comparison\<close>, and without either the result is
  \<open>[acronym]\<close>.
\<close>

theorem select_mnemonic_strategy_rules:
  "(\<forall>n. formulas_count f = Some n \<and> n \<ge> 3
        \<longrightarrow> ascii ''acronym'' \<in> set (select_mnemonic_strategy f))
   \<and> (has_comparison f = Some True
        \<longrightarrow> ascii ''comparison'' \<in> set (select_mnemonic_strategy f))
   \<and> (abstraction_level f = Some (ascii ''high'')
        \<longrightarrow> ascii ''analogy'' \<in> set (select_mnemonic_strategy f))
   \<and> ((\<forall>n. formulas_count f = Some n \<longrightarrow> n < 3) \<and> has_comparison f \<noteq> Some True
        \<and> abstraction_level f \<noteq> Some (ascii ''high'')
       \<longrightarrow> select_mnemonic_strategy f = [ascii ''acronym''])
   \<and> select_mnemonic_strategy f \<noteq> []
   \<and> (digit_runs dg False x \<ge> 3
        \<longrightarrow> ascii ''acronym'' \<in> set (select_mnemonic_strategy (analyze_concept_features dg nm x)))
   \<and> (contains x (ascii ''vs'') \<or> contains x [23545, 27604]
        \<longrightarrow> ascii ''comparison'' \<in> set (select_mnemonic_strategy (analyze_concept_features dg nm x)))
   \<and> (digit_runs dg False x < 3 \<and> \<not> contains x (ascii ''vs'') \<and> \<not> contains x [23545, 27604]
        \<longrightarrow> select_mnemonic_strategy (analyze_concept_features dg nm x) = [ascii ''acronym''])"
proof -
  let ?f = "analyze_concept_features dg nm x"
  note g = select_mnemonic_strategy_general[of ?f]
  have m: "ascii ''medium'' \<noteq> ascii ''high''" by (simp add: ascii_def)
  have a1: "ascii ''acronym'' \<in> set (select_mnemonic_strategy ?f)"
    if "digit_runs dg False x \<ge> 3"
  proof -
    have "formulas_count ?f = Some (int (digit_runs dg False x)) \<and> int (digit_runs dg False x) \<ge> 3"
      using that by (simp add: analyze_concept_features_fields)
    with g show ?thesis by blast
  qed
  have a2: "ascii ''comparison'' \<in> set (select_mnemonic_strategy ?f)"
    if "contains x (ascii ''vs'') \<or> contains x [23545, 27604]"
  proof -
    have "has_comparison ?f = Some True"
      using that by (simp only: analyze_concept_features_fields)
    with g show ?thesis by blast
  qed
  have a3: "select_mnemonic_strategy ?f = [ascii ''acronym'']"
    if "digit_runs dg False x < 3 \<and> \<not> contains x (ascii ''vs'') \<and> \<not> contains x [23545, 27604]"
  proof -
    have "\<forall>n. formulas_count ?f = Some n \<longrightarrow> n < 3"
      using that by (simp add: analyze_concept_features_fields)
    moreover have "has_comparison ?f \<noteq> Some True"
      using that by (simp only: analyze_concept_features_fields) simp
    moreover have "abstraction_level ?f \<noteq> Some (ascii ''high'')"
      using m by (simp add: analyze_concept_features_fields)
    ultimately show ?thesis using g by blast
  qed
  from select_mnemonic_strategy_general[of f] a1 a2 a3 show ?thesis by blast
qed

text \<open>
  An explanation with three numbers and the word "vs".
\<close>

theorem select_mnemonic_strategy_rules_witness:
  "select_mnemonic_strategy
     (analyze_concept_features ascii_digit (ascii ''fruit'') (ascii ''3 apples vs 14 pears in 2023''))
   = [ascii ''acronym'', ascii ''comparison'']"
  using select_mnemonic_strategy_rules[of
          "analyze_concept_features ascii_digit (ascii ''fruit'') (ascii ''3 apples vs 14 pears in 2023'')"
          ascii_digit "ascii ''3 apples vs 14 pears in 2023''" "ascii ''fruit''"]
  by (simp add: select_mnemonic_strategy_def analyze_concept_features_def Let_def ascii_def
        ascii_digit_def)


section \<open>Properties of the reasoning-action cycle\<close>

lemma inject_id: "tc_id (inject st tc) = tc_id tc"
  by (simp add: inject_def)

text \<open>
  C9 (action failure isolation). In a state whose last message requests tool calls, if
  the dispatch of one of them raises with description \<open>d\<close>, then \<open>tool_node\<close> does not
  raise: it returns a state whose history has one more message per requested call, among
  them the observation for the failed call, which is the error prefix followed by \<open>d\<close>;
  and if the language model answers that history without requesting a tool, the cycle
  returns after this one oracle step.
\<close>

theorem tool_failure_isolated:
  assumes "messages st \<noteq> []" and "last (messages st) = AIMessage c tcs" and "tc \<in> set tcs"
    and "tool_executor_invoke (tools r) (inject st tc) = Inl (Exception d)"
  shows "\<exists>st'. tool_node r st = Inr st'
           \<and> ToolMessage (error_prefix @ d) (tc_id tc) \<in> set (messages st')
           \<and> length (messages st') = length (messages st) + length tcs
           \<and> (\<forall>c'. llm_with_tools r (messages st') = Inr (AIMessage c' []) \<longrightarrow>
                 react r 1 st' = Returned (st'\<lparr>messages := messages st' @ [AIMessage c' []]\<rparr>))"
proof -
  from assms(3) obtain t ts where tcs: "tcs = t # ts" by (cases tcs) auto
  define st' where "st' = st\<lparr>messages := butlast (messages st) @ [AIMessage c (map (inject st) tcs)]
                                   @ map (observe r) (map (inject st) tcs),
                     next_step := Some (ascii ''agent'')\<rparr>"
  have node: "tool_node r st = Inr st'"
    using assms(1,2) tcs by (simp add: tool_node_def st'_def Let_def)
  have obs: "observe r (inject st tc) = ToolMessage (error_prefix @ d) (tc_id tc)"
    using assms(4) by (simp add: observe_def inject_id)
  have mem: "ToolMessage (error_prefix @ d) (tc_id tc) \<in> set (messages st')"
    using assms(3) obs by (force simp: st'_def)
  have len: "length (messages st') = length (messages st) + length tcs"
    using assms(1) by (simp add: st'_def)
  have ne: "messages st' \<noteq> []" by (simp add: st'_def)
  have fin: "react r 1 st' = Returned (st'\<lparr>messages := messages st' @ [AIMessage c' []]\<rparr>)"
    if "llm_with_tools r (messages st') = Inr (AIMessage c' [])" for c'
    using that ne by (simp add: agent_node_def should_continue_def ascii_def)
  from node mem len fin show ?thesis by blast
qed

text \<open>
  The cycle of \<open>failing_renv\<close> after the model has requested the failing tool.
\<close>

theorem tool_failure_isolated_witness:
  "\<exists>st'. tool_node failing_renv asked = Inr st'
      \<and> ToolMessage (error_prefix @ ascii ''boom'') (ascii ''call_1'') \<in> set (messages st')
      \<and> react failing_renv 1 st'
          = Returned (st'\<lparr>messages := messages st' @ [AIMessage (ascii ''done'') []]\<rparr>)"
proof -
  have a: "messages asked \<noteq> []" "last (messages asked) = AIMessage [] [failing_call]"
    "failing_call \<in> set [failing_call]"
    by (simp_all add: asked_def)
  have b: "tool_executor_invoke (tools failing_renv) (inject asked failing_call)
             = Inl (Exception (ascii ''boom''))"
    by (simp add: tool_executor_invoke_def failing_renv_def inject_def failing_call_def ascii_def)
  from tool_failure_isolated[OF a b] obtain st' where
    n: "tool_node failing_renv asked = Inr st'"
    and m: "ToolMessage (error_prefix @ ascii ''boom'') (tc_id failing_call) \<in> set (messages st')"
    and l: "length (messages st') = length (messages asked) + length [failing_call]"
    and f: "\<forall>c'. llm_with_tools failing_renv (messages st') = Inr (AIMessage c' []) \<longrightarrow>
                 react failing_renv 1 st' = Returned (st'\<lparr>messages := messages st' @ [AIMessage c' []]\<rparr>)"
    by blast
  from l have "llm_with_tools failing_renv (messages st') = Inr (AIMessage (ascii ''done'') [])"
    by (simp add: failing_renv_def asked_def)
  with f have "react failing_renv 1 st'
          = Returned (st'\<lparr>messages := messages st' @ [AIMessage (ascii ''done'') []]\<rparr>)"
    by blast
  with n m show ?thesis by (auto simp: failing_call_def)
qed

end
